theory Spec2Isabelle
  imports Complex_Main
begin

section \<open>The values of type double\<close>

text \<open>
  The source computes on C++ \<open>double\<close>s. A double is modelled as a real number or one
  of the three special values of IEEE 754: the two infinities and NaN. The special values
  follow IEEE 754: an invalid operation such as \<open>0/0\<close>, \<open>\<infinity> - \<infinity>\<close> or \<open>0 \<times> \<infinity>\<close> gives
  NaN, NaN propagates, a nonzero finite number divided by zero is an infinity, every
  comparison with NaN is false except \<open>!=\<close>, and a result too large for a finite double
  is an infinity. Two things are left out: the rounding of a result within the finite
  range to 53 bits (underflow included), and the sign of zero (zero is taken as \<open>+0\<close>).
\<close>

datatype double = Num real | PosInf | NegInf | NaN

text \<open>
  The largest finite double, and the least magnitude that rounding to nearest sends to
  an infinity: half a unit in the last place above it.
\<close>

definition max_double :: real where
  "max_double = 2 ^ 1024 - 2 ^ 971"

definition overflow_threshold :: real where
  "overflow_threshold = 2 ^ 1024 - 2 ^ 970"

text \<open>The double that an arithmetic operation returns for the real result \<open>x\<close>.\<close>

definition fl :: "real \<Rightarrow> double" where
  "fl x = (if overflow_threshold \<le> x then PosInf
          else if x \<le> - overflow_threshold then NegInf
          else Num x)"

text \<open>
  A value within the range of the doubles: every double is one. (The datatype also has
  numbers beyond the largest finite double, which no double holds.)
\<close>

fun in_double_range :: "double \<Rightarrow> bool" where
  "in_double_range (Num a) = (\<bar>a\<bar> \<le> max_double)"
| "in_double_range PosInf = True"
| "in_double_range NegInf = True"
| "in_double_range NaN = True"

fun is_finite :: "double \<Rightarrow> bool" where
  "is_finite (Num a) = True"
| "is_finite PosInf = False"
| "is_finite NegInf = False"
| "is_finite NaN = False"

fun dneg :: "double \<Rightarrow> double" where
  "dneg (Num a) = Num (- a)"
| "dneg PosInf = NegInf"
| "dneg NegInf = PosInf"
| "dneg NaN = NaN"

text \<open>\<open>a + b\<close>\<close>

fun dadd :: "double \<Rightarrow> double \<Rightarrow> double" where
  "dadd NaN b = NaN"
| "dadd a NaN = NaN"
| "dadd (Num a) (Num b) = fl (a + b)"
| "dadd (Num a) PosInf = PosInf"
| "dadd (Num a) NegInf = NegInf"
| "dadd PosInf (Num b) = PosInf"
| "dadd NegInf (Num b) = NegInf"
| "dadd PosInf PosInf = PosInf"
| "dadd NegInf NegInf = NegInf"
| "dadd PosInf NegInf = NaN"
| "dadd NegInf PosInf = NaN"

text \<open>\<open>a - b\<close>\<close>

definition dsub :: "double \<Rightarrow> double \<Rightarrow> double" where
  "dsub a b = dadd a (dneg b)"

text \<open>\<open>a * b\<close>\<close>

fun dmul :: "double \<Rightarrow> double \<Rightarrow> double" where
  "dmul NaN b = NaN"
| "dmul a NaN = NaN"
| "dmul (Num a) (Num b) = fl (a * b)"
| "dmul (Num a) PosInf = (if a = 0 then NaN else if 0 < a then PosInf else NegInf)"
| "dmul (Num a) NegInf = (if a = 0 then NaN else if 0 < a then NegInf else PosInf)"
| "dmul PosInf (Num b) = (if b = 0 then NaN else if 0 < b then PosInf else NegInf)"
| "dmul NegInf (Num b) = (if b = 0 then NaN else if 0 < b then NegInf else PosInf)"
| "dmul PosInf PosInf = PosInf"
| "dmul NegInf NegInf = PosInf"
| "dmul PosInf NegInf = NegInf"
| "dmul NegInf PosInf = NegInf"

text \<open>\<open>a / b\<close>; the divisor zero is \<open>+0\<close>.\<close>

fun ddiv :: "double \<Rightarrow> double \<Rightarrow> double" where
  "ddiv NaN b = NaN"
| "ddiv a NaN = NaN"
| "ddiv (Num a) (Num b) =
     (if b \<noteq> 0 then fl (a / b)
      else if a = 0 then NaN
      else if 0 < a then PosInf else NegInf)"
| "ddiv (Num a) PosInf = Num 0"
| "ddiv (Num a) NegInf = Num 0"
| "ddiv PosInf (Num b) = (if 0 \<le> b then PosInf else NegInf)"
| "ddiv NegInf (Num b) = (if 0 \<le> b then NegInf else PosInf)"
| "ddiv PosInf PosInf = NaN"
| "ddiv NegInf NegInf = NaN"
| "ddiv PosInf NegInf = NaN"
| "ddiv NegInf PosInf = NaN"

text \<open>\<open>std::sqrt\<close>\<close>

fun dsqrt :: "double \<Rightarrow> double" where
  "dsqrt (Num a) = (if a < 0 then NaN else Num (sqrt a))"
| "dsqrt PosInf = PosInf"
| "dsqrt NegInf = NaN"
| "dsqrt NaN = NaN"

text \<open>\<open>std::abs\<close>\<close>

fun dabs :: "double \<Rightarrow> double" where
  "dabs (Num a) = Num \<bar>a\<bar>"
| "dabs PosInf = PosInf"
| "dabs NegInf = PosInf"
| "dabs NaN = NaN"

text \<open>\<open>a < b\<close> and \<open>a != b\<close>\<close>

fun dless :: "double \<Rightarrow> double \<Rightarrow> bool" where
  "dless NaN b = False"
| "dless a NaN = False"
| "dless (Num a) (Num b) = (a < b)"
| "dless (Num a) PosInf = True"
| "dless (Num a) NegInf = False"
| "dless PosInf b = False"
| "dless NegInf NegInf = False"
| "dless NegInf b = True"

definition dneq :: "double \<Rightarrow> double \<Rightarrow> bool" where
  "dneq a b = (a = NaN \<or> b = NaN \<or> a \<noteq> b)"

text \<open>\<open>std::max(a, b)\<close>, which is \<open>(a < b) ? b : a\<close>.\<close>

definition dmax :: "double \<Rightarrow> double \<Rightarrow> double" where
  "dmax a b = (if dless a b then b else a)"

text \<open>
  The cast \<open>(double) i\<close> of an index \<open>i\<close> of type \<open>size_t\<close>, which is modelled as a
  natural number. The cast is exact below \<open>2^53\<close>; a larger index, of \<open>n\<close> bits, is
  rounded to the nearest multiple of \<open>2^(n - 53)\<close>, and to the even one of two nearest.
  The result is again an integer.
\<close>

fun bit_length :: "nat \<Rightarrow> nat" where
  "bit_length n = (if n = 0 then 0 else Suc (bit_length (n div 2)))"

declare bit_length.simps [simp del]

definition size_to_double :: "nat \<Rightarrow> nat" where
  "size_to_double i =
     (if i < 2 ^ 53 then i
      else let ulp = 2 ^ (bit_length i - 53); q = i div ulp; r = i mod ulp
           in if 2 * r < ulp \<or> (2 * r = ulp \<and> even q) then q * ulp else (q + 1) * ulp)"

text \<open>
  \<open>std::pow(x, y)\<close> for a \<open>y\<close> that is a non-negative integer. \<open>pow(x, 0)\<close> is 1 for
  every \<open>x\<close>, NaN included.
\<close>

fun pow_nat :: "double \<Rightarrow> nat \<Rightarrow> double" where
  "pow_nat x 0 = Num 1"
| "pow_nat (Num a) (Suc n) = fl (a ^ Suc n)"
| "pow_nat PosInf (Suc n) = PosInf"
| "pow_nat NegInf (Suc n) = (if even n then NegInf else PosInf)"
| "pow_nat NaN (Suc n) = NaN"

text \<open>\<open>std::pow(x, (double) i)\<close>\<close>

definition dpow :: "double \<Rightarrow> nat \<Rightarrow> double" where
  "dpow x i = pow_nat x (size_to_double i)"

section \<open>Matrices\<close>

text \<open>
  An \<open>arma::mat\<close>: the two dimensions and the elements in column-major order. The
  dimensions and the iteration index have type \<open>size_t\<close> in the source; the code does no
  arithmetic on them, and they are natural numbers here. In its default configuration the
  matrix library checks that the operands of an element-wise operation of two matrices
  have the same dimensions, and throws \<open>std::logic_error\<close> when they do not: such an
  operation returns an error or the resulting matrix. Failure to allocate is not
  modelled.
\<close>

record mat =
  n_rows :: nat
  n_cols :: nat
  mem :: "double list"

datatype error = IncompatibleDimensions

definition ebind :: "error + 'a \<Rightarrow> ('a \<Rightarrow> error + 'b) \<Rightarrow> error + 'b" where
  "ebind r f = (case r of Inl e \<Rightarrow> Inl e | Inr x \<Rightarrow> f x)"

text \<open>The matrix a default-constructed \<open>arma::mat\<close> holds: no rows and no columns.\<close>

definition empty_mat :: mat where
  "empty_mat = \<lparr>n_rows = 0, n_cols = 0, mem = []\<rparr>"

text \<open>\<open>arma::zeros<arma::mat>(rows, cols)\<close>\<close>

definition zeros :: "nat \<Rightarrow> nat \<Rightarrow> mat" where
  "zeros rows cols = \<lparr>n_rows = rows, n_cols = cols, mem = replicate (rows * cols) (Num 0)\<rparr>"

definition same_size :: "mat \<Rightarrow> mat \<Rightarrow> bool" where
  "same_size A B = (n_rows A = n_rows B \<and> n_cols A = n_cols B)"

definition mat_map :: "(double \<Rightarrow> double) \<Rightarrow> mat \<Rightarrow> mat" where
  "mat_map f A = A\<lparr>mem := map f (mem A)\<rparr>"

definition mat_map2 :: "(double \<Rightarrow> double \<Rightarrow> double) \<Rightarrow> mat \<Rightarrow> mat \<Rightarrow> error + mat" where
  "mat_map2 f A B =
     (if same_size A B then Inr (A\<lparr>mem := map2 f (mem A) (mem B)\<rparr>)
      else Inl IncompatibleDimensions)"

text \<open>\<open>A *= k\<close> and \<open>k * A\<close>, \<open>A + k\<close> for a scalar \<open>k\<close>\<close>

definition times_scalar :: "mat \<Rightarrow> double \<Rightarrow> mat" where
  "times_scalar A k = mat_map (\<lambda>x. dmul x k) A"

definition scalar_times :: "double \<Rightarrow> mat \<Rightarrow> mat" where
  "scalar_times k A = mat_map (\<lambda>x. dmul k x) A"

definition plus_scalar :: "mat \<Rightarrow> double \<Rightarrow> mat" where
  "plus_scalar A k = mat_map (\<lambda>x. dadd x k) A"

text \<open>\<open>arma::abs(A)\<close>, \<open>arma::sqrt(A)\<close>\<close>

definition mat_abs :: "mat \<Rightarrow> mat" where
  "mat_abs A = mat_map dabs A"

definition mat_sqrt :: "mat \<Rightarrow> mat" where
  "mat_sqrt A = mat_map dsqrt A"

text \<open>\<open>A + B\<close>, \<open>A - B\<close>, \<open>A % B\<close>, \<open>A / B\<close>, \<open>arma::max(A, B)\<close>, all element-wise\<close>

definition mat_plus :: "mat \<Rightarrow> mat \<Rightarrow> error + mat" where
  "mat_plus A B = mat_map2 dadd A B"

definition mat_minus :: "mat \<Rightarrow> mat \<Rightarrow> error + mat" where
  "mat_minus A B = mat_map2 dsub A B"

definition mat_schur :: "mat \<Rightarrow> mat \<Rightarrow> error + mat" where
  "mat_schur A B = mat_map2 dmul A B"

definition mat_div :: "mat \<Rightarrow> mat \<Rightarrow> error + mat" where
  "mat_div A B = mat_map2 ddiv A B"

definition mat_max :: "mat \<Rightarrow> mat \<Rightarrow> error + mat" where
  "mat_max A B = mat_map2 dmax A B"

text \<open>A matrix of \<open>r\<close> rows and \<open>c\<close> columns that holds its \<open>r * c\<close> elements.\<close>

definition has_shape :: "mat \<Rightarrow> nat \<Rightarrow> nat \<Rightarrow> bool" where
  "has_shape A r c = (n_rows A = r \<and> n_cols A = c \<and> length (mem A) = r * c)"

section \<open>The class AdamUpdate\<close>

record AdamUpdate =
  epsilon :: double
  beta1 :: double
  beta2 :: double
  adaMax :: bool
  m :: mat
  u :: mat
  v :: mat

text \<open>The constructor; its default arguments are \<open>1e-8\<close>, \<open>0.9\<close>, \<open>0.999\<close> and \<open>false\<close>.\<close>

definition AdamUpdate_new :: "double \<Rightarrow> double \<Rightarrow> double \<Rightarrow> bool \<Rightarrow> AdamUpdate" where
  "AdamUpdate_new eps b1 b2 am =
     \<lparr>epsilon = eps, beta1 = b1, beta2 = b2, adaMax = am,
      m = empty_mat, u = empty_mat, v = empty_mat\<rparr>"

definition Initialize :: "AdamUpdate \<Rightarrow> nat \<Rightarrow> nat \<Rightarrow> AdamUpdate" where
  "Initialize st rows cols =
     (let st1 = st\<lparr>m := zeros rows cols\<rparr>
      in if adaMax st1 then st1\<lparr>u := zeros rows cols\<rparr>
         else st1\<lparr>v := zeros rows cols\<rparr>)"

text \<open>
  \<open>Update\<close> changes the object and the iterate in place. The model returns both as the
  call leaves them, or the error of the first matrix operation whose operands differ in
  size; the exception leaves the function at that point, and what the object holds
  afterwards is not part of the result. Each \<open>let\<close> below is one assignment of the
  source, in the order of the source.
\<close>

definition Update ::
  "AdamUpdate \<Rightarrow> mat \<Rightarrow> double \<Rightarrow> mat \<Rightarrow> nat \<Rightarrow> error + (AdamUpdate \<times> mat)" where
  "Update st iterate stepSize gradient i =
     (let st1 = st\<lparr>m := times_scalar (m st) (beta1 st)\<rparr>
      in ebind (mat_plus (m st1) (scalar_times (dsub (Num 1) (beta1 st1)) gradient)) (\<lambda>m2.
         let st2 = st1\<lparr>m := m2\<rparr>
         in ebind
              (if adaMax st2 then
                 (let st3 = st2\<lparr>u := times_scalar (u st2) (beta2 st2)\<rparr>
                  in ebind (mat_max (u st3) (mat_abs gradient)) (\<lambda>u2. Inr (st3\<lparr>u := u2\<rparr>)))
               else
                 (let st3 = st2\<lparr>v := times_scalar (v st2) (beta2 st2)\<rparr>
                  in ebind (mat_schur gradient gradient) (\<lambda>gg.
                     ebind (mat_plus (v st3) (scalar_times (dsub (Num 1) (beta2 st3)) gg)) (\<lambda>v2.
                     Inr (st3\<lparr>v := v2\<rparr>)))))
              (\<lambda>st4.
                 let biasCorrection1 = dsub (Num 1) (dpow (beta1 st4) i);
                     biasCorrection2 = dsub (Num 1) (dpow (beta2 st4) i)
                 in if adaMax st4 then
                      (if dneq biasCorrection1 (Num 0) then
                         ebind (mat_div (scalar_times (ddiv stepSize biasCorrection1) (m st4))
                                  (plus_scalar (u st4) (epsilon st4))) (\<lambda>d.
                         ebind (mat_minus iterate d) (\<lambda>iterate2. Inr (st4, iterate2)))
                       else Inr (st4, iterate))
                    else
                      ebind (mat_div
                               (scalar_times
                                  (ddiv (dmul stepSize (dsqrt biasCorrection2)) biasCorrection1)
                                  (m st4))
                               (plus_scalar (mat_sqrt (v st4)) (epsilon st4))) (\<lambda>d.
                      ebind (mat_minus iterate d) (\<lambda>iterate2. Inr (st4, iterate2))))))"

text \<open>
  The accessors. The reading ones are the record's selectors; the modifying ones return a
  reference to the field, through which the caller assigns a new value.
\<close>

definition Epsilon_assign :: "double \<Rightarrow> AdamUpdate \<Rightarrow> AdamUpdate" where
  "Epsilon_assign x st = st\<lparr>epsilon := x\<rparr>"

definition Beta1_assign :: "double \<Rightarrow> AdamUpdate \<Rightarrow> AdamUpdate" where
  "Beta1_assign x st = st\<lparr>beta1 := x\<rparr>"

definition Beta2_assign :: "double \<Rightarrow> AdamUpdate \<Rightarrow> AdamUpdate" where
  "Beta2_assign x st = st\<lparr>beta2 := x\<rparr>"

definition AdaMax_assign :: "bool \<Rightarrow> AdamUpdate \<Rightarrow> AdamUpdate" where
  "AdaMax_assign x st = st\<lparr>adaMax := x\<rparr>"

section \<open>A client: a sequence of calls on one object and one parameter matrix\<close>

datatype call =
    Call_Initialize nat nat
  | Call_Update double mat nat
  | Set_Epsilon double
  | Set_Beta1 double
  | Set_Beta2 double
  | Set_AdaMax bool

fun exec :: "call \<Rightarrow> AdamUpdate \<times> mat \<Rightarrow> error + (AdamUpdate \<times> mat)" where
  "exec (Call_Initialize rows cols) (st, iterate) = Inr (Initialize st rows cols, iterate)"
| "exec (Call_Update stepSize gradient i) (st, iterate) = Update st iterate stepSize gradient i"
| "exec (Set_Epsilon x) (st, iterate) = Inr (Epsilon_assign x st, iterate)"
| "exec (Set_Beta1 x) (st, iterate) = Inr (Beta1_assign x st, iterate)"
| "exec (Set_Beta2 x) (st, iterate) = Inr (Beta2_assign x st, iterate)"
| "exec (Set_AdaMax x) (st, iterate) = Inr (AdaMax_assign x st, iterate)"

fun run :: "call list \<Rightarrow> AdamUpdate \<times> mat \<Rightarrow> error + (AdamUpdate \<times> mat)" where
  "run [] s = Inr s"
| "run (c # cs) s = ebind (exec c s) (run cs)"

fun is_setter :: "call \<Rightarrow> bool" where
  "is_setter (Call_Initialize rows cols) = False"
| "is_setter (Call_Update stepSize gradient i) = False"
| "is_setter (Set_Epsilon x) = True"
| "is_setter (Set_Beta1 x) = True"
| "is_setter (Set_Beta2 x) = True"
| "is_setter (Set_AdaMax x) = True"

text \<open>
  An instance is ready for gradients of \<open>r\<close> rows and \<open>c\<close> columns when \<open>Initialize\<close>
  has given that shape to the first moment and to the accumulator of its variant.
\<close>

definition ready :: "AdamUpdate \<Rightarrow> nat \<Rightarrow> nat \<Rightarrow> bool" where
  "ready st r c =
     (has_shape (m st) r c \<and> (if adaMax st then has_shape (u st) r c else has_shape (v st) r c))"

text \<open>The \<open>r\<close> by \<open>c\<close> matrix all of whose elements are zero.\<close>

definition is_zero_matrix :: "mat \<Rightarrow> nat \<Rightarrow> nat \<Rightarrow> bool" where
  "is_zero_matrix A r c = (has_shape A r c \<and> (\<forall>x \<in> set (mem A). x = Num 0))"

text \<open>A matrix given by its dimensions and its finite elements.\<close>

definition mat_of_reals :: "nat \<Rightarrow> nat \<Rightarrow> real list \<Rightarrow> mat" where
  "mat_of_reals r c xs = \<lparr>n_rows = r, n_cols = c, mem = map Num xs\<rparr>"

text \<open>All elements of a matrix are within the range of the doubles.\<close>

definition mat_in_range :: "mat \<Rightarrow> bool" where
  "mat_in_range A = (\<forall>x \<in> set (mem A). in_double_range x)"

text \<open>
  A configuration under which a zero gradient keeps the accumulators zero and a finite
  step factor gives a zero step: \<open>epsilon\<close> is neither zero nor NaN, and the two decay
  rates are finite doubles. The conventional \<open>epsilon > 0\<close> and rates in \<open>[0, 1)\<close> are of
  this kind.
\<close>

definition well_conditioned :: "AdamUpdate \<Rightarrow> bool" where
  "well_conditioned st =
     ((case epsilon st of Num e \<Rightarrow> e \<noteq> 0 | PosInf \<Rightarrow> True | NegInf \<Rightarrow> True | NaN \<Rightarrow> False) \<and>
      is_finite (beta1 st) \<and> in_double_range (beta1 st) \<and>
      is_finite (beta2 st) \<and> in_double_range (beta2 st))"

text \<open>
  The scalar by which \<open>Update\<close> multiplies the first moment in its last statement:
  \<open>stepSize / biasCorrection1\<close> at line 120, and
  \<open>stepSize * std::sqrt(biasCorrection2) / biasCorrection1\<close> at lines 129-130.
\<close>

definition step_factor :: "AdamUpdate \<Rightarrow> double \<Rightarrow> nat \<Rightarrow> double" where
  "step_factor st stepSize i =
     (let biasCorrection1 = dsub (Num 1) (dpow (beta1 st) i);
          biasCorrection2 = dsub (Num 1) (dpow (beta2 st) i)
      in if adaMax st then ddiv stepSize biasCorrection1
         else ddiv (dmul stepSize (dsqrt biasCorrection2)) biasCorrection1)"

text \<open>The guard of line 119 fails, so that the call does not touch the iterate.\<close>

definition step_skipped :: "AdamUpdate \<Rightarrow> nat \<Rightarrow> bool" where
  "step_skipped st i = (adaMax st \<and> \<not> dneq (dsub (Num 1) (dpow (beta1 st) i)) (Num 0))"

text \<open>
  A call of \<open>Update\<close>, on an instance configured as \<open>st\<close>, with the \<open>r\<close> by \<open>c\<close> zero
  matrix as gradient, an iteration index of at least 1, and a step size for which the
  step factor that the call computes is finite (or the step is skipped).
\<close>

fun zero_gradient_call :: "AdamUpdate \<Rightarrow> nat \<Rightarrow> nat \<Rightarrow> call \<Rightarrow> bool" where
  "zero_gradient_call st r c (Call_Update stepSize gradient i) =
     (is_zero_matrix gradient r c \<and> 1 \<le> i \<and>
      (step_skipped st i \<or> is_finite (step_factor st stepSize i)))"
| "zero_gradient_call st r c (Call_Initialize rows cols) = False"
| "zero_gradient_call st r c (Set_Epsilon x) = False"
| "zero_gradient_call st r c (Set_Beta1 x) = False"
| "zero_gradient_call st r c (Set_Beta2 x) = False"
| "zero_gradient_call st r c (Set_AdaMax x) = False"

section \<open>Initialize\<close>

lemma is_zero_matrix_zeros: "is_zero_matrix (zeros r c) r c"
  by (simp add: is_zero_matrix_def zeros_def has_shape_def)

lemma Initialize_m: "m (Initialize st r c) = zeros r c"
  by (simp add: Initialize_def Let_def)

lemma Initialize_active:
  "(if adaMax st then u (Initialize st r c) else v (Initialize st r c)) = zeros r c"
  by (simp add: Initialize_def Let_def)

text \<open>
  C6: whatever the instance holds (so after any history of calls), \<open>Initialize rows cols\<close>
  leaves the first moment equal to the \<open>rows\<close> by \<open>cols\<close> zero matrix, and likewise the
  accumulator that the variant flag selects: the infinity norm \<open>u\<close> when the flag is set,
  the second moment \<open>v\<close> when it is not.
\<close>

theorem Initialize_zeroes_active_accumulators:
  "is_zero_matrix (m (Initialize st rows cols)) rows cols \<and>
   is_zero_matrix (if adaMax st then u (Initialize st rows cols)
                   else v (Initialize st rows cols)) rows cols"
  by (simp only: Initialize_m Initialize_active is_zero_matrix_zeros simp_thms)

theorem Initialize_zeroes_active_accumulators_witness:
  "is_zero_matrix
     (m (Initialize \<lparr>epsilon = Num 1, beta1 = Num (1/2), beta2 = Num (1/2), adaMax = False,
          m = mat_of_reals 1 1 [5], u = mat_of_reals 1 1 [6], v = mat_of_reals 1 1 [7]\<rparr> 2 1))
     2 1 \<and>
   is_zero_matrix
     (v (Initialize \<lparr>epsilon = Num 1, beta1 = Num (1/2), beta2 = Num (1/2), adaMax = False,
          m = mat_of_reals 1 1 [5], u = mat_of_reals 1 1 [6], v = mat_of_reals 1 1 [7]\<rparr> 2 1))
     2 1 \<and>
   is_zero_matrix
     (u (Initialize \<lparr>epsilon = Num 1, beta1 = Num (1/2), beta2 = Num (1/2), adaMax = True,
          m = mat_of_reals 1 1 [5], u = mat_of_reals 1 1 [6], v = mat_of_reals 1 1 [7]\<rparr> 2 1))
     2 1 \<and>
   mem (u (Initialize \<lparr>epsilon = Num 1, beta1 = Num (1/2), beta2 = Num (1/2), adaMax = True,
          m = mat_of_reals 1 1 [5], u = mat_of_reals 1 1 [6], v = mat_of_reals 1 1 [7]\<rparr> 2 1))
     = [Num 0, Num 0]"
  using Initialize_zeroes_active_accumulators
          [of "\<lparr>epsilon = Num 1, beta1 = Num (1/2), beta2 = Num (1/2), adaMax = False,
                m = mat_of_reals 1 1 [5], u = mat_of_reals 1 1 [6], v = mat_of_reals 1 1 [7]\<rparr>"
              2 1]
        Initialize_zeroes_active_accumulators
          [of "\<lparr>epsilon = Num 1, beta1 = Num (1/2), beta2 = Num (1/2), adaMax = True,
                m = mat_of_reals 1 1 [5], u = mat_of_reals 1 1 [6], v = mat_of_reals 1 1 [7]\<rparr>"
              2 1]
  by (simp add: Initialize_def zeros_def numeral_2_eq_2)

text \<open>
  C10: \<open>Initialize\<close> assigns only the accumulator that the flag selects. With the flag
  clear the infinity norm \<open>u\<close> keeps the matrix it held, with the flag set the second
  moment \<open>v\<close> does; the configuration is not changed either.
\<close>

theorem Initialize_leaves_other_accumulator:
  "(\<not> adaMax st \<longrightarrow> u (Initialize st rows cols) = u st) \<and>
   (adaMax st \<longrightarrow> v (Initialize st rows cols) = v st) \<and>
   epsilon (Initialize st rows cols) = epsilon st \<and>
   beta1 (Initialize st rows cols) = beta1 st \<and>
   beta2 (Initialize st rows cols) = beta2 st \<and>
   adaMax (Initialize st rows cols) = adaMax st"
  by (simp add: Initialize_def Let_def)

theorem Initialize_leaves_other_accumulator_witness:
  "u (Initialize \<lparr>epsilon = Num 1, beta1 = Num (1/2), beta2 = Num (1/2), adaMax = False,
        m = mat_of_reals 1 1 [5], u = mat_of_reals 1 1 [6], v = mat_of_reals 1 1 [7]\<rparr> 2 1)
     = mat_of_reals 1 1 [6] \<and>
   v (Initialize \<lparr>epsilon = Num 1, beta1 = Num (1/2), beta2 = Num (1/2), adaMax = True,
        m = mat_of_reals 1 1 [5], u = mat_of_reals 1 1 [6], v = mat_of_reals 1 1 [7]\<rparr> 2 1)
     = mat_of_reals 1 1 [7]"
  using Initialize_leaves_other_accumulator
          [of "\<lparr>epsilon = Num 1, beta1 = Num (1/2), beta2 = Num (1/2), adaMax = False,
                m = mat_of_reals 1 1 [5], u = mat_of_reals 1 1 [6], v = mat_of_reals 1 1 [7]\<rparr>"
              2 1]
        Initialize_leaves_other_accumulator
          [of "\<lparr>epsilon = Num 1, beta1 = Num (1/2), beta2 = Num (1/2), adaMax = True,
                m = mat_of_reals 1 1 [5], u = mat_of_reals 1 1 [6], v = mat_of_reals 1 1 [7]\<rparr>"
              2 1]
  by simp

section \<open>Facts about doubles and matrices\<close>

lemmas mat_defs = mat_plus_def mat_minus_def mat_schur_def mat_div_def mat_max_def
  mat_abs_def mat_sqrt_def times_scalar_def scalar_times_def plus_scalar_def
  mat_map_def mat_map2_def same_size_def

lemma overflow_threshold_large: "2 ^ 1023 < overflow_threshold"
proof -
  have "(2::real) ^ 970 < 2 ^ 1023" by (rule power_strict_increasing) simp_all
  moreover have "(2::real) ^ 1024 = 2 ^ 1023 + 2 ^ 1023"
    using power_Suc [of "2::real" 1023] by simp
  ultimately show ?thesis unfolding overflow_threshold_def by linarith
qed

lemma max_double_below_threshold: "max_double + 1 < overflow_threshold"
proof -
  have "(1::real) < 2 ^ 970" by (rule one_less_power) simp_all
  moreover have "(2::real) ^ 971 = 2 ^ 970 + 2 ^ 970"
    using power_Suc [of "2::real" 970] by simp
  ultimately show ?thesis unfolding overflow_threshold_def max_double_def by linarith
qed

lemma max_double_large: "2 ^ 1023 \<le> max_double"
proof -
  have "(2::real) ^ 971 \<le> 2 ^ 1023" by (rule power_increasing) simp_all
  moreover have "(2::real) ^ 1024 = 2 ^ 1023 + 2 ^ 1023"
    using power_Suc [of "2::real" 1023] by simp
  ultimately show ?thesis unfolding max_double_def by linarith
qed

lemma fl_in_range: "\<bar>x\<bar> < overflow_threshold \<Longrightarrow> fl x = Num x"
  by (auto simp add: fl_def abs_less_iff)

lemma fl_overflow: "overflow_threshold \<le> x \<Longrightarrow> fl x = PosInf"
  by (simp add: fl_def)

text \<open>Numbers of small magnitude, as the examples have them, are far from overflow.\<close>

lemma fl_small [simp]: "\<bar>x\<bar> \<le> 1024 \<Longrightarrow> fl x = Num x"
proof (rule fl_in_range)
  assume "\<bar>x\<bar> \<le> 1024"
  moreover have "(1024::real) \<le> 2 ^ 1023"
    using power_increasing [of 10 1023 "2::real"] by simp
  ultimately show "\<bar>x\<bar> < overflow_threshold"
    using overflow_threshold_large by linarith
qed

lemma small_in_double_range [simp]: "\<bar>x\<bar> \<le> 1024 \<Longrightarrow> in_double_range (Num x)"
proof -
  assume "\<bar>x\<bar> \<le> 1024"
  moreover have "(1024::real) \<le> 2 ^ 1023"
    using power_increasing [of 10 1023 "2::real"] by simp
  ultimately show ?thesis
    using max_double_large by simp
qed

lemma is_finite_fl: "\<bar>x\<bar> < overflow_threshold \<Longrightarrow> is_finite (fl x)"
  by (simp add: fl_in_range)

lemma dmul_commute: "dmul a b = dmul b a"
  by (cases a; cases b) (auto simp add: mult.commute)

lemma size_to_double_exact: "i < 2 ^ 53 \<Longrightarrow> size_to_double i = i"
  by (simp add: size_to_double_def)

text \<open>An index beyond \<open>2^53\<close>: the cast of \<open>2^53 + 1\<close> is \<open>2^53\<close>.\<close>

lemma bit_length_example: "bit_length 9007199254740993 = 54"
  by (simp add: bit_length.simps [of "numeral k" for k] bit_length.simps [of "Suc 0"]
        bit_length.simps [of 0])

lemma size_to_double_example: "size_to_double (2 ^ 53 + 1) = 2 ^ 53"
  by (simp add: size_to_double_def bit_length_example)

lemma pow_nat_Num: "pow_nat (Num b) n = fl (b ^ n)"
  by (cases n) simp_all

lemma dpow_zero [simp]: "dpow x 0 = Num 1"
  by (simp add: dpow_def size_to_double_def)

lemma dpow_exact [simp]: "i < 2 ^ 53 \<Longrightarrow> dpow x i = pow_nat x i"
  by (simp add: dpow_def size_to_double_exact)

lemma dpow_Num: "i < 2 ^ 53 \<Longrightarrow> dpow (Num b) i = fl (b ^ i)"
  by (simp add: pow_nat_Num)

lemma dsub_Num: "dsub (Num a) (Num b) = fl (a - b)"
  by (simp add: dsub_def)

lemma dsub_NaN: "dsub a NaN = NaN"
  by (cases a) (simp_all add: dsub_def)

lemma dsub_zero: "in_double_range a \<Longrightarrow> dsub a (Num 0) = a"
  using max_double_below_threshold
  by (cases a) (simp_all add: dsub_def fl_in_range)

lemma dneq_Num: "dneq (Num a) (Num b) = (a \<noteq> b)"
  by (simp add: dneq_def)

lemma dmax_Num: "dmax (Num a) (Num b) = Num (max a b)"
  by (simp add: dmax_def max_def)

lemma biasCorrection_at_zero: "dsub (Num 1) (dpow b 0) = Num 0"
  by (simp add: dsub_def)

lemma zero_over_zero_scale: "ddiv (dmul s (dsqrt (Num 0))) (Num 0) = NaN"
  by (cases s) simp_all

section \<open>Update, element by element\<close>

text \<open>
  What one call computes when the shapes agree, in the operand order of the source.
\<close>

lemma Update_Adam_elems:
  assumes "\<not> adaMax st" "has_shape (m st) r c" "has_shape (v st) r c"
    "has_shape g r c" "has_shape it r c"
  shows "\<exists>st' it'. Update st it s g i = Inr (st', it') \<and>
    epsilon st' = epsilon st \<and> beta1 st' = beta1 st \<and> beta2 st' = beta2 st \<and>
    adaMax st' = adaMax st \<and> u st' = u st \<and>
    has_shape (m st') r c \<and> has_shape (v st') r c \<and> has_shape it' r c \<and>
    (\<forall>k<r * c.
       mem (m st') ! k = dadd (dmul (mem (m st) ! k) (beta1 st)) (dmul (dsub (Num 1) (beta1 st)) (mem g ! k)) \<and>
       mem (v st') ! k = dadd (dmul (mem (v st) ! k) (beta2 st)) (dmul (dsub (Num 1) (beta2 st)) (dmul (mem g ! k) (mem g ! k))) \<and>
       mem it' ! k = dsub (mem it ! k)
         (ddiv (dmul (ddiv (dmul s (dsqrt (dsub (Num 1) (dpow (beta2 st) i)))) (dsub (Num 1) (dpow (beta1 st) i))) (mem (m st') ! k))
               (dadd (dsqrt (mem (v st') ! k)) (epsilon st))))"
  using assms
  by (simp add: Update_def Let_def ebind_def mat_defs has_shape_def)

lemma Update_AdaMax_skip:
  assumes "adaMax st" "has_shape (m st) r c" "has_shape (u st) r c" "has_shape g r c"
    "\<not> dneq (dsub (Num 1) (dpow (beta1 st) i)) (Num 0)"
  shows "\<exists>st'. Update st it s g i = Inr (st', it) \<and>
    epsilon st' = epsilon st \<and> beta1 st' = beta1 st \<and> beta2 st' = beta2 st \<and>
    adaMax st' = adaMax st \<and> v st' = v st \<and>
    has_shape (m st') r c \<and> has_shape (u st') r c \<and>
    (\<forall>k<r * c.
       mem (m st') ! k = dadd (dmul (mem (m st) ! k) (beta1 st)) (dmul (dsub (Num 1) (beta1 st)) (mem g ! k)) \<and>
       mem (u st') ! k = dmax (dmul (mem (u st) ! k) (beta2 st)) (dabs (mem g ! k)))"
  using assms
  by (simp add: Update_def Let_def ebind_def mat_defs has_shape_def)

lemma Update_AdaMax_elems:
  assumes "adaMax st" "has_shape (m st) r c" "has_shape (u st) r c" "has_shape g r c"
    "has_shape it r c" "dneq (dsub (Num 1) (dpow (beta1 st) i)) (Num 0)"
  shows "\<exists>st' it'. Update st it s g i = Inr (st', it') \<and>
    epsilon st' = epsilon st \<and> beta1 st' = beta1 st \<and> beta2 st' = beta2 st \<and>
    adaMax st' = adaMax st \<and> v st' = v st \<and>
    has_shape (m st') r c \<and> has_shape (u st') r c \<and> has_shape it' r c \<and>
    (\<forall>k<r * c.
       mem (m st') ! k = dadd (dmul (mem (m st) ! k) (beta1 st)) (dmul (dsub (Num 1) (beta1 st)) (mem g ! k)) \<and>
       mem (u st') ! k = dmax (dmul (mem (u st) ! k) (beta2 st)) (dabs (mem g ! k)) \<and>
       mem it' ! k = dsub (mem it ! k)
         (ddiv (dmul (ddiv s (dsub (Num 1) (dpow (beta1 st) i))) (mem (m st') ! k))
               (dadd (mem (u st') ! k) (epsilon st))))"
  using assms
  by (simp add: Update_def Let_def ebind_def mat_defs has_shape_def)

lemma ready_Initialize: "ready (Initialize st r c) r c"
  by (simp add: ready_def Initialize_def Let_def zeros_def has_shape_def)

lemma has_shape_mat_of_reals: "length xs = r * c \<Longrightarrow> has_shape (mat_of_reals r c xs) r c"
  by (simp add: has_shape_def mat_of_reals_def)

section \<open>Update: the standard variant\<close>

text \<open>
  C1: in Adam mode (flag clear), on an instance that is ready for the shape of the
  gradient and of the iterate, and with an iteration index of at least 1, \<open>Update\<close>
  raises no error and computes, element by element,
  the first moment \<open>beta1 * m + (1 - beta1) * gradient\<close>,
  the second moment \<open>beta2 * v + (1 - beta2) * (gradient * gradient)\<close>,
  and then, from these new moments, the iterate
  \<open>iterate - (stepSize * sqrt (1 - beta2 ^ i) / (1 - beta1 ^ i)) * m / (sqrt v + epsilon)\<close>,
  where the denominator adds \<open>epsilon\<close> itself. The configuration and the infinity norm
  are left as they were.
\<close>

theorem Adam_update_formulas:
  assumes "\<not> adaMax st" and "ready st r c" and "has_shape gradient r c"
    and "has_shape iterate r c" and "1 \<le> i"
  shows "\<exists>st' iterate'.
    Update st iterate stepSize gradient i = Inr (st', iterate') \<and>
    epsilon st' = epsilon st \<and> beta1 st' = beta1 st \<and> beta2 st' = beta2 st \<and>
    adaMax st' = adaMax st \<and> u st' = u st \<and>
    has_shape (m st') r c \<and> has_shape (v st') r c \<and> has_shape iterate' r c \<and>
    (\<forall>k<r * c.
       mem (m st') ! k =
         dadd (dmul (beta1 st) (mem (m st) ! k))
              (dmul (dsub (Num 1) (beta1 st)) (mem gradient ! k)) \<and>
       mem (v st') ! k =
         dadd (dmul (beta2 st) (mem (v st) ! k))
              (dmul (dsub (Num 1) (beta2 st)) (dmul (mem gradient ! k) (mem gradient ! k))) \<and>
       mem iterate' ! k =
         dsub (mem iterate ! k)
           (ddiv (dmul (ddiv (dmul stepSize (dsqrt (dsub (Num 1) (dpow (beta2 st) i))))
                             (dsub (Num 1) (dpow (beta1 st) i)))
                       (mem (m st') ! k))
                 (dadd (dsqrt (mem (v st') ! k)) (epsilon st))))"
  using assms Update_Adam_elems [of st r c gradient iterate stepSize i]
  by (simp add: ready_def dmul_commute [of "beta1 st"] dmul_commute [of "beta2 st"])

theorem Adam_update_formulas_witness:
  "\<exists>st' iterate'.
     Update (Initialize (AdamUpdate_new (Num (1/4)) (Num (1/2)) (Num (3/4)) False) 1 1)
       (mat_of_reals 1 1 [1]) (Num 2) (mat_of_reals 1 1 [3]) 1 = Inr (st', iterate') \<and>
     mem (m st') ! 0 = Num (3/2) \<and> mem (v st') ! 0 = Num (9/4) \<and>
     mem iterate' ! 0 = Num (- 5/7)"
proof -
  have s1: "sqrt (1/4) = 1/2" and s2: "sqrt (9/4) = 3/2"
    by (rule real_sqrt_unique; simp add: power2_eq_square)+
  show ?thesis
    using Adam_update_formulas
      [of "Initialize (AdamUpdate_new (Num (1/4)) (Num (1/2)) (Num (3/4)) False) 1 1" 1 1
          "mat_of_reals 1 1 [3]" "mat_of_reals 1 1 [1]" 1 "Num 2"]
    by (simp add: ready_Initialize has_shape_mat_of_reals)
       (auto simp add: Initialize_def AdamUpdate_new_def zeros_def mat_of_reals_def dsub_def s1 s2)
qed

section \<open>Update: the AdaMax variant\<close>

text \<open>
  C2: in AdaMax mode (flag set), on a ready instance, \<open>Update\<close> raises no error and
  replaces each element of the infinity norm by the maximum of \<open>beta2 * u\<close> and
  \<open>|gradient|\<close>; and when \<open>1 - beta1 ^ i\<close> is not zero, each element of the iterate
  becomes \<open>iterate - (stepSize / (1 - beta1 ^ i)) * m / (u + epsilon)\<close>, with the new
  first moment and the new infinity norm.
\<close>

theorem AdaMax_update_formulas:
  assumes "adaMax st" and "ready st r c" and "has_shape gradient r c"
    and "has_shape iterate r c"
  shows "\<exists>st' iterate'.
    Update st iterate stepSize gradient i = Inr (st', iterate') \<and>
    epsilon st' = epsilon st \<and> beta1 st' = beta1 st \<and> beta2 st' = beta2 st \<and>
    adaMax st' = adaMax st \<and> v st' = v st \<and>
    has_shape (m st') r c \<and> has_shape (u st') r c \<and>
    (\<forall>k<r * c.
       mem (m st') ! k =
         dadd (dmul (beta1 st) (mem (m st) ! k))
              (dmul (dsub (Num 1) (beta1 st)) (mem gradient ! k)) \<and>
       mem (u st') ! k = dmax (dmul (beta2 st) (mem (u st) ! k)) (dabs (mem gradient ! k))) \<and>
    (dneq (dsub (Num 1) (dpow (beta1 st) i)) (Num 0) \<longrightarrow>
       has_shape iterate' r c \<and>
       (\<forall>k<r * c.
          mem iterate' ! k =
            dsub (mem iterate ! k)
              (ddiv (dmul (ddiv stepSize (dsub (Num 1) (dpow (beta1 st) i))) (mem (m st') ! k))
                    (dadd (mem (u st') ! k) (epsilon st)))))"
proof (cases "dneq (dsub (Num 1) (dpow (beta1 st) i)) (Num 0)")
  case True
  with assms Update_AdaMax_elems [of st r c gradient iterate i stepSize] show ?thesis
    by (simp add: ready_def dmul_commute [of "beta1 st"] dmul_commute [of "beta2 st"]) blast
next
  case False
  with assms Update_AdaMax_skip [of st r c gradient i iterate stepSize] show ?thesis
    by (simp add: ready_def dmul_commute [of "beta1 st"] dmul_commute [of "beta2 st"]) blast
qed

theorem AdaMax_update_formulas_witness:
  "\<exists>st' iterate'.
     Update (Initialize (AdamUpdate_new (Num (1/4)) (Num (1/2)) (Num (3/4)) True) 1 1)
       (mat_of_reals 1 1 [1]) (Num 2) (mat_of_reals 1 1 [- 3]) 1 = Inr (st', iterate') \<and>
     mem (m st') ! 0 = Num (- 3/2) \<and> mem (u st') ! 0 = Num 3 \<and>
     mem iterate' ! 0 = Num (37/13)"
  using AdaMax_update_formulas
      [of "Initialize (AdamUpdate_new (Num (1/4)) (Num (1/2)) (Num (3/4)) True) 1 1" 1 1
          "mat_of_reals 1 1 [- 3]" "mat_of_reals 1 1 [1]" "Num 2" 1]
  by (simp add: ready_Initialize has_shape_mat_of_reals)
     (auto simp add: Initialize_def AdamUpdate_new_def zeros_def mat_of_reals_def dsub_def
        dneq_def dmax_def)

text \<open>
  C3: in AdaMax mode, on a ready instance, a call with iteration index 0 raises no error
  and returns the iterate it was given. (\<open>pow(beta1, 0)\<close> is 1 for every \<open>beta1\<close>, so
  the guard \<open>biasCorrection1 != 0.0\<close> fails whatever \<open>beta1\<close> is.)
\<close>

theorem AdaMax_iteration_zero_keeps_iterate:
  assumes "adaMax st" and "ready st r c" and "has_shape gradient r c"
  shows "\<exists>st'. Update st iterate stepSize gradient 0 = Inr (st', iterate)"
  using assms Update_AdaMax_skip [of st r c gradient 0 iterate stepSize]
  by (simp add: ready_def dsub_Num dneq_Num) blast

theorem AdaMax_iteration_zero_keeps_iterate_witness:
  "\<exists>st'. Update (Initialize (AdamUpdate_new (Num (1/4)) (Num (1/2)) (Num (3/4)) True) 1 2)
       (mat_of_reals 1 2 [1, 5]) (Num 2) (mat_of_reals 1 2 [- 3, 4]) 0
     = Inr (st', mat_of_reals 1 2 [1, 5])"
  using AdaMax_iteration_zero_keeps_iterate
      [of "Initialize (AdamUpdate_new (Num (1/4)) (Num (1/2)) (Num (3/4)) True) 1 2" 1 2
          "mat_of_reals 1 2 [- 3, 4]" "mat_of_reals 1 2 [1, 5]" "Num 2"]
  by (simp add: ready_Initialize has_shape_mat_of_reals)
     (simp add: Initialize_def AdamUpdate_new_def)

text \<open>
  C7 as stated fails: in the guarded case the two accumulators are updated before the
  guard is reached. An instance with zero accumulators, gradient 1 and iteration index 0
  ends with first moment \<open>1/2\<close> and infinity norm 1.
\<close>

theorem AdaMax_guarded_case_changes_accumulators:
  "Update (Initialize (AdamUpdate_new (Num (1/4)) (Num (1/2)) (Num (3/4)) True) 1 1)
       (mat_of_reals 1 1 [1]) (Num 2) (mat_of_reals 1 1 [1]) 0
     = Inr (\<lparr>epsilon = Num (1/4), beta1 = Num (1/2), beta2 = Num (3/4), adaMax = True,
             m = mat_of_reals 1 1 [1/2], u = mat_of_reals 1 1 [1], v = empty_mat\<rparr>,
            mat_of_reals 1 1 [1]) \<and>
   m (Initialize (AdamUpdate_new (Num (1/4)) (Num (1/2)) (Num (3/4)) True) 1 1)
     = mat_of_reals 1 1 [0] \<and>
   u (Initialize (AdamUpdate_new (Num (1/4)) (Num (1/2)) (Num (3/4)) True) 1 1)
     = mat_of_reals 1 1 [0] \<and>
   mat_of_reals 1 1 [1/2] \<noteq> mat_of_reals 1 1 [0] \<and>
   mat_of_reals 1 1 [1] \<noteq> mat_of_reals 1 1 [0]"
  by (simp add: Update_def Initialize_def AdamUpdate_new_def Let_def ebind_def mat_defs
        zeros_def mat_of_reals_def empty_mat_def dsub_def dneq_def dmax_def)

text \<open>
  C7, amended: when the guard fails (\<open>1 - beta1 ^ i\<close> is zero, as it is for index 0) the
  call raises no error and leaves the iterate, the configuration and the second moment
  as they were, but it does update the first moment and the infinity norm, by the same
  formulas as every other call.
\<close>

theorem AdaMax_guarded_case_frame:
  assumes "adaMax st" and "ready st r c" and "has_shape gradient r c"
    and "\<not> dneq (dsub (Num 1) (dpow (beta1 st) i)) (Num 0)"
  shows "\<exists>st'.
    Update st iterate stepSize gradient i = Inr (st', iterate) \<and>
    epsilon st' = epsilon st \<and> beta1 st' = beta1 st \<and> beta2 st' = beta2 st \<and>
    adaMax st' = adaMax st \<and> v st' = v st \<and>
    has_shape (m st') r c \<and> has_shape (u st') r c \<and>
    (\<forall>k<r * c.
       mem (m st') ! k =
         dadd (dmul (beta1 st) (mem (m st) ! k))
              (dmul (dsub (Num 1) (beta1 st)) (mem gradient ! k)) \<and>
       mem (u st') ! k = dmax (dmul (beta2 st) (mem (u st) ! k)) (dabs (mem gradient ! k)))"
  using assms Update_AdaMax_skip [of st r c gradient i iterate stepSize]
  by (simp add: ready_def dmul_commute [of "beta1 st"] dmul_commute [of "beta2 st"])

theorem AdaMax_guarded_case_frame_witness:
  "\<exists>st'.
     Update (Initialize (AdamUpdate_new (Num (1/4)) (Num (1/2)) (Num (3/4)) True) 1 1)
       (mat_of_reals 1 1 [1]) (Num 2) (mat_of_reals 1 1 [- 3]) 0
       = Inr (st', mat_of_reals 1 1 [1]) \<and>
     mem (m st') ! 0 = Num (- 3/2) \<and> mem (u st') ! 0 = Num 3 \<and> v st' = empty_mat"
  using AdaMax_guarded_case_frame
      [of "Initialize (AdamUpdate_new (Num (1/4)) (Num (1/2)) (Num (3/4)) True) 1 1" 1 1
          "mat_of_reals 1 1 [- 3]" 0 "mat_of_reals 1 1 [1]" "Num 2"]
  by (simp add: ready_Initialize has_shape_mat_of_reals dsub_Num dneq_Num)
     (auto simp add: Initialize_def AdamUpdate_new_def zeros_def mat_of_reals_def dsub_def
        dmax_def)

section \<open>Iteration index 0 in the standard variant\<close>

text \<open>
  C4: in Adam mode nothing guards the division. With iteration index 0 both bias
  corrections are zero, the scale \<open>stepSize * sqrt 0 / 0\<close> is NaN whatever the step size
  is, and on a ready instance the call raises no error and makes every element of the
  iterate NaN. The same instance switched to AdaMax and initialized again returns the
  iterate unchanged for the same arguments.
\<close>

theorem Adam_iteration_zero_unguarded:
  assumes "\<not> adaMax st" and "ready st r c" and "has_shape gradient r c"
    and "has_shape iterate r c"
  shows "dsub (Num 1) (dpow (beta1 st) 0) = Num 0 \<and>
    (\<exists>st' iterate'.
       Update st iterate stepSize gradient 0 = Inr (st', iterate') \<and>
       has_shape iterate' r c \<and>
       (\<forall>k<r * c. mem iterate' ! k = NaN \<and> \<not> is_finite (mem iterate' ! k))) \<and>
    (\<exists>st'. Update (Initialize (AdaMax_assign True st) r c) iterate stepSize gradient 0
              = Inr (st', iterate))"
proof -
  have guarded: "\<exists>st'. Update (Initialize (AdaMax_assign True st) r c) iterate stepSize gradient 0
              = Inr (st', iterate)"
    using Update_AdaMax_skip [of "Initialize (AdaMax_assign True st) r c" r c gradient 0
            iterate stepSize] assms(3) ready_Initialize [of "AdaMax_assign True st" r c]
    by (simp add: ready_def dsub_Num dneq_Num Initialize_def AdaMax_assign_def) blast
  have unguarded: "\<exists>st' iterate'.
       Update st iterate stepSize gradient 0 = Inr (st', iterate') \<and>
       has_shape iterate' r c \<and>
       (\<forall>k<r * c. mem iterate' ! k = NaN \<and> \<not> is_finite (mem iterate' ! k))"
    using assms Update_Adam_elems [of st r c gradient iterate stepSize 0]
    by (simp add: ready_def dsub_Num zero_over_zero_scale dsub_NaN
          del: dsqrt.simps) (metis is_finite.simps(4))
  from guarded unguarded show ?thesis
    by (simp add: dsub_Num)
qed

theorem Adam_iteration_zero_unguarded_witness:
  "\<exists>st'.
     Update (Initialize (AdamUpdate_new (Num (1/4)) (Num (1/2)) (Num (3/4)) False) 1 1)
       (mat_of_reals 1 1 [1]) (Num 2) (mat_of_reals 1 1 [3]) 0
     = Inr (st', \<lparr>n_rows = 1, n_cols = 1, mem = [NaN]\<rparr>)"
  using Adam_iteration_zero_unguarded
      [of "Initialize (AdamUpdate_new (Num (1/4)) (Num (1/2)) (Num (3/4)) False) 1 1" 1 1
          "mat_of_reals 1 1 [3]" "mat_of_reals 1 1 [1]" "Num 2"]
  apply (simp add: ready_Initialize has_shape_mat_of_reals)
  apply (simp add: Initialize_def AdamUpdate_new_def)
  apply (elim conjE exE)
  subgoal for st' iterate' st''
    by (cases iterate') (simp add: has_shape_def length_Suc_conv, auto)
  done

section \<open>Sequences of calls\<close>

lemma ebind_Inr: "ebind (Inr x) f = f x"
  by (simp add: ebind_def)

lemma ebind_Inl: "ebind (Inl e) f = Inl e"
  by (simp add: ebind_def)

lemma run_append: "run (cs @ ds) s = ebind (run cs s) (run ds)"
proof (induction cs arbitrary: s)
  case Nil
  show ?case by (simp add: ebind_Inr)
next
  case (Cons call cs)
  show ?case
  proof (cases "exec call s")
    case (Inl e)
    then show ?thesis by (simp add: ebind_Inl)
  next
    case (Inr s')
    with Cons.IH [of s'] show ?thesis by (simp add: ebind_Inr)
  qed
qed

text \<open>
  C9: assigning to \<open>epsilon\<close>, \<open>beta1\<close>, \<open>beta2\<close> or the variant flag through its accessor
  changes that field and nothing else. After any run of calls that ended with the
  instance \<open>st\<close> and the parameters \<open>iterate\<close>, the assignment raises no error and leaves
  \<open>iterate\<close> and the three accumulators as the run left them; the calls that follow start
  from that state, so the new value can only act on them.
\<close>

theorem configuration_assignment_frame:
  assumes "run cs s0 = Inr (st, iterate)" and "is_setter call"
  shows "\<exists>st'. run (cs @ [call]) s0 = Inr (st', iterate) \<and>
           m st' = m st \<and> u st' = u st \<and> v st' = v st \<and>
           run (cs @ call # ds) s0 = run ds (st', iterate) \<and>
           st' = (case call of
                    Set_Epsilon x \<Rightarrow> st\<lparr>epsilon := x\<rparr>
                  | Set_Beta1 x \<Rightarrow> st\<lparr>beta1 := x\<rparr>
                  | Set_Beta2 x \<Rightarrow> st\<lparr>beta2 := x\<rparr>
                  | Set_AdaMax x \<Rightarrow> st\<lparr>adaMax := x\<rparr>
                  | _ \<Rightarrow> st)"
  using assms
  by (cases call)
     (simp_all add: run_append ebind_Inr
        Epsilon_assign_def Beta1_assign_def Beta2_assign_def AdaMax_assign_def)

theorem configuration_assignment_frame_witness:
  "\<exists>st'. run ([Call_Initialize 1 1, Call_Update (Num 2) (mat_of_reals 1 1 [3]) 1] @ [Set_Beta1 (Num (1/8))])
            (AdamUpdate_new (Num (1/4)) (Num (1/2)) (Num (3/4)) False, mat_of_reals 1 1 [1])
          = Inr (st', mat_of_reals 1 1 [- 5/7]) \<and>
        m st' = mat_of_reals 1 1 [3/2] \<and> v st' = mat_of_reals 1 1 [9/4] \<and> u st' = empty_mat \<and>
        beta1 st' = Num (1/8)"
proof -
  have s1: "sqrt (1/4) = 1/2" and s2: "sqrt (9/4) = 3/2"
    by (rule real_sqrt_unique; simp add: power2_eq_square)+
  have before: "run [Call_Initialize 1 1, Call_Update (Num 2) (mat_of_reals 1 1 [3]) 1]
            (AdamUpdate_new (Num (1/4)) (Num (1/2)) (Num (3/4)) False, mat_of_reals 1 1 [1])
          = Inr (\<lparr>epsilon = Num (1/4), beta1 = Num (1/2), beta2 = Num (3/4), adaMax = False,
                  m = mat_of_reals 1 1 [3/2], u = empty_mat, v = mat_of_reals 1 1 [9/4]\<rparr>,
                 mat_of_reals 1 1 [- 5/7])"
    by (simp add: ebind_def Update_def Initialize_def AdamUpdate_new_def Let_def mat_defs
          zeros_def mat_of_reals_def dsub_def s1 s2)
  show ?thesis
    using configuration_assignment_frame [OF before, of "Set_Beta1 (Num (1/8))" "[]"]
    by auto
qed

section \<open>Zero gradients\<close>

lemma is_zero_matrix_nth: "is_zero_matrix A r c \<Longrightarrow> k < r * c \<Longrightarrow> mem A ! k = Num 0"
  by (simp add: is_zero_matrix_def has_shape_def)

lemma is_zero_matrixI:
  assumes "has_shape A r c" and "\<forall>k<r * c. mem A ! k = Num 0"
  shows "is_zero_matrix A r c"
  using assms by (auto simp add: is_zero_matrix_def has_shape_def in_set_conv_nth)

lemma is_zero_matrix_shape: "is_zero_matrix A r c \<Longrightarrow> has_shape A r c"
  by (simp add: is_zero_matrix_def)

lemma mat_in_range_nth:
  "mat_in_range A \<Longrightarrow> has_shape A r c \<Longrightarrow> k < r * c \<Longrightarrow> in_double_range (mem A ! k)"
  by (simp add: mat_in_range_def has_shape_def)

lemma mat_eqI:
  fixes A B :: mat
  assumes "has_shape A r c" and "has_shape B r c" and "\<forall>k<r * c. mem A ! k = mem B ! k"
  shows "A = B"
proof -
  from assms have "mem A = mem B"
    by (intro nth_equalityI) (simp_all add: has_shape_def)
  with assms(1,2) show ?thesis
    by (simp add: has_shape_def)
qed

lemma one_minus_in_range:
  assumes "\<bar>b\<bar> \<le> max_double"
  shows "fl (1 - b) = Num (1 - b)"
proof (rule fl_in_range)
  from assms have "\<bar>1 - b\<bar> \<le> max_double + 1" by linarith
  with max_double_below_threshold show "\<bar>1 - b\<bar> < overflow_threshold" by linarith
qed

text \<open>A zero gradient leaves a zero accumulator zero when the decay rate is a finite double.\<close>

lemma zero_first_moment:
  assumes "is_finite b" and "in_double_range b"
  shows "dadd (dmul (Num 0) b) (dmul (dsub (Num 1) b) (Num 0)) = Num 0"
  using assms by (cases b) (simp_all add: dsub_Num one_minus_in_range)

lemma zero_second_moment:
  assumes "is_finite b" and "in_double_range b"
  shows "dadd (dmul (Num 0) b) (dmul (dsub (Num 1) b) (dmul (Num 0) (Num 0))) = Num 0"
  using assms by (cases b) (simp_all add: dsub_Num one_minus_in_range)

lemma zero_infinity_norm:
  assumes "is_finite b"
  shows "dmax (dmul (Num 0) b) (Num 0) = Num 0"
  using assms by (cases b) (simp_all add: dmax_Num)

text \<open>A finite step factor times a zero first moment gives no step.\<close>

lemma zero_over_epsilon:
  assumes "e \<noteq> Num 0" and "e \<noteq> NaN"
  shows "ddiv (Num 0) (dadd (Num 0) e) = Num 0"
  using assms by (cases e) (simp_all add: fl_def)

lemma zero_step:
  assumes "is_finite f" and "e \<noteq> Num 0" and "e \<noteq> NaN" and "in_double_range x"
  shows "dsub x (ddiv (dmul f (Num 0)) (dadd (Num 0) e)) = x"
proof -
  from assms(1) have "dmul f (Num 0) = Num 0" by (cases f) simp_all
  with assms(2-4) show ?thesis by (simp add: zero_over_epsilon dsub_zero)
qed

lemma well_conditionedD:
  assumes "well_conditioned st"
  shows "epsilon st \<noteq> Num 0" and "epsilon st \<noteq> NaN"
    and "is_finite (beta1 st)" and "in_double_range (beta1 st)"
    and "is_finite (beta2 st)" and "in_double_range (beta2 st)"
  using assms by (auto simp add: well_conditioned_def split: double.splits)

lemma well_conditioned_config:
  assumes "epsilon st' = epsilon st" and "beta1 st' = beta1 st" and "beta2 st' = beta2 st"
  shows "well_conditioned st' = well_conditioned st"
  using assms by (simp add: well_conditioned_def)

lemma zero_gradient_call_config:
  assumes "beta1 st' = beta1 st" and "beta2 st' = beta2 st" and "adaMax st' = adaMax st"
  shows "zero_gradient_call st' r c call = zero_gradient_call st r c call"
  using assms by (cases call) (simp_all add: step_factor_def step_skipped_def)

text \<open>One call with a zero gradient, on an instance whose active accumulators are zero.\<close>

lemma Update_zero_gradient:
  assumes wc: "well_conditioned st"
    and zm: "is_zero_matrix (m st) r c"
    and za: "is_zero_matrix (if adaMax st then u st else v st) r c"
    and zg: "is_zero_matrix g r c"
    and it: "has_shape it r c" and rng: "mat_in_range it"
    and ok: "step_skipped st i \<or> is_finite (step_factor st s i)"
  shows "\<exists>st'. Update st it s g i = Inr (st', it) \<and>
    epsilon st' = epsilon st \<and> beta1 st' = beta1 st \<and> beta2 st' = beta2 st \<and>
    adaMax st' = adaMax st \<and>
    is_zero_matrix (m st') r c \<and> is_zero_matrix (if adaMax st' then u st' else v st') r c"
proof -
  note e = well_conditionedD(1,2) [OF wc]
  note b1 = well_conditionedD(3,4) [OF wc]
  note b2 = well_conditionedD(5,6) [OF wc]
  note shapes = is_zero_matrix_shape [OF zm] is_zero_matrix_shape [OF zg]
  note zero = is_zero_matrix_nth [OF zm] is_zero_matrix_nth [OF zg]
  note elem = mat_in_range_nth [OF rng it]
  show ?thesis
  proof (cases "adaMax st")
    case False
    with za have zv: "is_zero_matrix (v st) r c" by simp
    from False ok have fin: "is_finite (ddiv (dmul s (dsqrt (dsub (Num 1) (dpow (beta2 st) i))))
                                            (dsub (Num 1) (dpow (beta1 st) i)))"
      by (simp add: step_skipped_def step_factor_def Let_def)
    from Update_Adam_elems [OF False shapes(1) is_zero_matrix_shape [OF zv] shapes(2) it, of s i]
    obtain st' it' where res: "Update st it s g i = Inr (st', it')"
      and cfg: "epsilon st' = epsilon st" "beta1 st' = beta1 st" "beta2 st' = beta2 st"
        "adaMax st' = adaMax st"
      and sh: "has_shape (m st') r c" "has_shape (v st') r c" "has_shape it' r c"
      and el: "\<forall>k<r * c.
         mem (m st') ! k = dadd (dmul (mem (m st) ! k) (beta1 st)) (dmul (dsub (Num 1) (beta1 st)) (mem g ! k)) \<and>
         mem (v st') ! k = dadd (dmul (mem (v st) ! k) (beta2 st)) (dmul (dsub (Num 1) (beta2 st)) (dmul (mem g ! k) (mem g ! k))) \<and>
         mem it' ! k = dsub (mem it ! k)
           (ddiv (dmul (ddiv (dmul s (dsqrt (dsub (Num 1) (dpow (beta2 st) i)))) (dsub (Num 1) (dpow (beta1 st) i))) (mem (m st') ! k))
                 (dadd (dsqrt (mem (v st') ! k)) (epsilon st)))"
      by blast
    have m0: "\<forall>k<r * c. mem (m st') ! k = Num 0"
      using el zero by (simp add: zero_first_moment [OF b1])
    have v0: "\<forall>k<r * c. mem (v st') ! k = Num 0"
      using el zero is_zero_matrix_nth [OF zv] by (simp add: zero_first_moment [OF b2] zero_second_moment [OF b2])
    have "\<forall>k<r * c. mem it' ! k = mem it ! k"
    proof (intro allI impI)
      fix k assume k: "k < r * c"
      with el m0 v0 have "mem it' ! k = dsub (mem it ! k)
           (ddiv (dmul (ddiv (dmul s (dsqrt (dsub (Num 1) (dpow (beta2 st) i)))) (dsub (Num 1) (dpow (beta1 st) i))) (Num 0))
                 (dadd (Num 0) (epsilon st)))"
        by simp
      also have "\<dots> = mem it ! k"
        by (rule zero_step [OF fin e elem [OF k]])
      finally show "mem it' ! k = mem it ! k" .
    qed
    with sh(3) it have "it' = it" by (rule mat_eqI)
    moreover have "is_zero_matrix (m st') r c" using sh(1) m0 by (rule is_zero_matrixI)
    moreover have "is_zero_matrix (v st') r c" using sh(2) v0 by (rule is_zero_matrixI)
    ultimately show ?thesis using res cfg False by simp
  next
    case True
    with za have zu: "is_zero_matrix (u st) r c" by simp
    show ?thesis
    proof (cases "dneq (dsub (Num 1) (dpow (beta1 st) i)) (Num 0)")
      case guard: True
      with True ok have fin: "is_finite (ddiv s (dsub (Num 1) (dpow (beta1 st) i)))"
        by (simp add: step_skipped_def step_factor_def Let_def)
      from Update_AdaMax_elems [OF True shapes(1) is_zero_matrix_shape [OF zu] shapes(2) it guard, of s]
      obtain st' it' where res: "Update st it s g i = Inr (st', it')"
        and cfg: "epsilon st' = epsilon st" "beta1 st' = beta1 st" "beta2 st' = beta2 st"
          "adaMax st' = adaMax st"
        and sh: "has_shape (m st') r c" "has_shape (u st') r c" "has_shape it' r c"
        and el: "\<forall>k<r * c.
           mem (m st') ! k = dadd (dmul (mem (m st) ! k) (beta1 st)) (dmul (dsub (Num 1) (beta1 st)) (mem g ! k)) \<and>
           mem (u st') ! k = dmax (dmul (mem (u st) ! k) (beta2 st)) (dabs (mem g ! k)) \<and>
           mem it' ! k = dsub (mem it ! k)
             (ddiv (dmul (ddiv s (dsub (Num 1) (dpow (beta1 st) i))) (mem (m st') ! k))
                   (dadd (mem (u st') ! k) (epsilon st)))"
        by blast
      have m0: "\<forall>k<r * c. mem (m st') ! k = Num 0"
        using el zero by (simp add: zero_first_moment [OF b1])
      have u0: "\<forall>k<r * c. mem (u st') ! k = Num 0"
        using el zero is_zero_matrix_nth [OF zu] by (simp add: zero_infinity_norm [OF b2(1)])
      have "\<forall>k<r * c. mem it' ! k = mem it ! k"
      proof (intro allI impI)
        fix k assume k: "k < r * c"
        with el m0 u0 have "mem it' ! k = dsub (mem it ! k)
             (ddiv (dmul (ddiv s (dsub (Num 1) (dpow (beta1 st) i))) (Num 0))
                   (dadd (Num 0) (epsilon st)))"
          by simp
        also have "\<dots> = mem it ! k"
          by (rule zero_step [OF fin e elem [OF k]])
        finally show "mem it' ! k = mem it ! k" .
      qed
      with sh(3) it have "it' = it" by (rule mat_eqI)
      moreover have "is_zero_matrix (m st') r c" using sh(1) m0 by (rule is_zero_matrixI)
      moreover have "is_zero_matrix (u st') r c" using sh(2) u0 by (rule is_zero_matrixI)
      ultimately show ?thesis using res cfg True by simp
    next
      case guard: False
      from Update_AdaMax_skip [OF True shapes(1) is_zero_matrix_shape [OF zu] shapes(2) guard, of it s]
      obtain st' where res: "Update st it s g i = Inr (st', it)"
        and cfg: "epsilon st' = epsilon st" "beta1 st' = beta1 st" "beta2 st' = beta2 st"
          "adaMax st' = adaMax st"
        and sh: "has_shape (m st') r c" "has_shape (u st') r c"
        and el: "\<forall>k<r * c.
           mem (m st') ! k = dadd (dmul (mem (m st) ! k) (beta1 st)) (dmul (dsub (Num 1) (beta1 st)) (mem g ! k)) \<and>
           mem (u st') ! k = dmax (dmul (mem (u st) ! k) (beta2 st)) (dabs (mem g ! k))"
        by blast
      have m0: "\<forall>k<r * c. mem (m st') ! k = Num 0"
        using el zero by (simp add: zero_first_moment [OF b1])
      have u0: "\<forall>k<r * c. mem (u st') ! k = Num 0"
        using el zero is_zero_matrix_nth [OF zu] by (simp add: zero_infinity_norm [OF b2(1)])
      have "is_zero_matrix (m st') r c" using sh(1) m0 by (rule is_zero_matrixI)
      moreover have "is_zero_matrix (u st') r c" using sh(2) u0 by (rule is_zero_matrixI)
      ultimately show ?thesis using res cfg True by simp
    qed
  qed
qed

lemma run_zero_gradients:
  assumes "well_conditioned st"
    and "is_zero_matrix (m st) r c"
    and "is_zero_matrix (if adaMax st then u st else v st) r c"
    and "has_shape it r c" and "mat_in_range it"
    and "\<forall>call \<in> set calls. zero_gradient_call st r c call"
  shows "\<exists>st'. run calls (st, it) = Inr (st', it) \<and> is_zero_matrix (m st') r c"
  using assms
proof (induction calls arbitrary: st)
  case Nil
  then show ?case by simp
next
  case (Cons call calls)
  from Cons.prems(6) have "zero_gradient_call st r c call" by simp
  then obtain s g i where call: "call = Call_Update s g i"
    and g: "is_zero_matrix g r c"
    and ok: "step_skipped st i \<or> is_finite (step_factor st s i)"
    by (cases call) simp_all
  from Update_zero_gradient [OF Cons.prems(1-3) g Cons.prems(4,5) ok]
  obtain st1 where step: "Update st it s g i = Inr (st1, it)"
    and cfg: "epsilon st1 = epsilon st" "beta1 st1 = beta1 st" "beta2 st1 = beta2 st"
      "adaMax st1 = adaMax st"
    and inv: "is_zero_matrix (m st1) r c"
      "is_zero_matrix (if adaMax st1 then u st1 else v st1) r c"
    by blast
  have wc: "well_conditioned st1"
    using Cons.prems(1) by (simp add: well_conditioned_config [OF cfg(1-3)])
  from Cons.prems(6) have rest: "\<forall>call \<in> set calls. zero_gradient_call st1 r c call"
    by (simp add: zero_gradient_call_config [OF cfg(2-4)])
  from Cons.IH [OF wc inv Cons.prems(4,5) rest]
  show ?case by (simp add: call step ebind_Inr)
qed

text \<open>
  C5 as stated fails for a large finite step size. In AdaMax mode with \<open>epsilon = 1/4\<close>,
  \<open>beta1 = 1/2\<close>, \<open>beta2 = 3/4\<close>, a zero gradient, iteration index 1 and the step size
  \<open>2^1023\<close>, the step factor \<open>stepSize / biasCorrection1\<close> is \<open>2^1023 / (1/2)\<close>, which
  overflows to infinity; infinity times the zero first moment is NaN, and the
  parameter 1 becomes NaN.
\<close>

theorem zero_gradient_with_large_step_changes_parameters:
  "run [Call_Update (Num (2 ^ 1023)) (zeros 1 1) 1]
     (Initialize (AdamUpdate_new (Num (1/4)) (Num (1/2)) (Num (3/4)) True) 1 1,
      mat_of_reals 1 1 [1])
   = Inr (\<lparr>epsilon = Num (1/4), beta1 = Num (1/2), beta2 = Num (3/4), adaMax = True,
           m = zeros 1 1, u = zeros 1 1, v = empty_mat\<rparr>,
          \<lparr>n_rows = 1, n_cols = 1, mem = [NaN]\<rparr>) \<and>
   mat_of_reals 1 1 [1] \<noteq> \<lparr>n_rows = 1, n_cols = 1, mem = [NaN]\<rparr> \<and>
   is_finite (Num (2 ^ 1023)) \<and> in_double_range (Num (2 ^ 1023))"
  by (simp add: ebind_def Update_def Initialize_def AdamUpdate_new_def Let_def mat_defs
        zeros_def mat_of_reals_def dsub_def dneq_def dmax_def empty_mat_def
        fl_def overflow_threshold_def max_double_def)

lemma well_conditioned_Initialize:
  "well_conditioned (Initialize st r c) = well_conditioned st"
  by (simp add: well_conditioned_def Initialize_def Let_def)

lemma zero_gradient_call_Initialize:
  "zero_gradient_call (Initialize st r c) r' c' call = zero_gradient_call st r' c' call"
  by (rule zero_gradient_call_config) (simp_all add: Initialize_def Let_def)

text \<open>
  C5, amended: let \<open>epsilon\<close> be neither zero nor NaN and let \<open>beta1\<close> and \<open>beta2\<close> be
  finite doubles (the conventional \<open>epsilon > 0\<close> and rates in \<open>[0, 1)\<close> are of this kind),
  in either variant, and let the parameters be within the range of the doubles, as every
  double is. After \<open>Initialize\<close>, take any finite sequence of \<open>Update\<close> calls whose
  gradients are zero matrices, whose iteration indices are at least 1, and in each of
  which the step factor that the call computes from the step size
  (\<open>stepSize * sqrt (1 - beta2 ^ i) / (1 - beta1 ^ i)\<close> in Adam mode,
  \<open>stepSize / (1 - beta1 ^ i)\<close> in AdaMax mode unless the guard skips the step) is
  finite. The sequence raises no error and ends with the parameters it started with,
  and with a zero first moment.
\<close>

theorem zero_gradients_keep_parameters:
  assumes "well_conditioned st0" and "has_shape iterate r c" and "mat_in_range iterate"
    and "\<forall>call \<in> set calls. zero_gradient_call st0 r c call"
  shows "\<exists>st'. run calls (Initialize st0 r c, iterate) = Inr (st', iterate) \<and>
           is_zero_matrix (m st') r c"
proof (rule run_zero_gradients [OF _ _ _ assms(2,3)])
  show "well_conditioned (Initialize st0 r c)"
    using assms(1) by (simp add: well_conditioned_Initialize)
  show "is_zero_matrix (m (Initialize st0 r c)) r c"
    by (simp add: Initialize_m is_zero_matrix_zeros)
  show "is_zero_matrix (if adaMax (Initialize st0 r c) then u (Initialize st0 r c)
                        else v (Initialize st0 r c)) r c"
    by (simp add: Initialize_def Let_def is_zero_matrix_zeros)
  show "\<forall>call \<in> set calls. zero_gradient_call (Initialize st0 r c) r c call"
    using assms(4) by (simp add: zero_gradient_call_Initialize)
qed

theorem zero_gradients_keep_parameters_witness:
  "(\<exists>st'. run [Call_Update (Num (1/100)) (zeros 1 2) 1, Call_Update (Num (1/50)) (zeros 1 2) 2]
            (Initialize (AdamUpdate_new (Num (1/10^8)) (Num (1/2)) (Num (24/25)) False) 1 2,
             mat_of_reals 1 2 [1, - 2])
          = Inr (st', mat_of_reals 1 2 [1, - 2]) \<and> is_zero_matrix (m st') 1 2) \<and>
   (\<exists>st'. run [Call_Update (Num (1/100)) (zeros 1 2) 1, Call_Update (Num (1/50)) (zeros 1 2) 2]
            (Initialize (AdamUpdate_new (Num (1/10^8)) (Num (1/2)) (Num (24/25)) True) 1 2,
             mat_of_reals 1 2 [1, - 2])
          = Inr (st', mat_of_reals 1 2 [1, - 2]) \<and> is_zero_matrix (m st') 1 2)"
proof -
  let ?calls = "[Call_Update (Num (1/100)) (zeros 1 2) 1, Call_Update (Num (1/50)) (zeros 1 2) 2]"
  have s1: "sqrt (1/25) = 1/5" and s2: "sqrt (49/625) = 7/25"
    by (rule real_sqrt_unique; simp add: power2_eq_square)+
  have wc: "well_conditioned (AdamUpdate_new (Num (1/10^8)) (Num (1/2)) (Num (24/25)) am)" for am
    by (simp add: well_conditioned_def AdamUpdate_new_def del: in_double_range.simps)
  have shape: "has_shape (mat_of_reals 1 2 [1, - 2]) 1 2"
    by (simp add: has_shape_mat_of_reals)
  have range: "mat_in_range (mat_of_reals 1 2 [1, - 2])"
    by (simp add: mat_in_range_def mat_of_reals_def del: in_double_range.simps)
  have adam: "\<forall>call \<in> set ?calls.
      zero_gradient_call (AdamUpdate_new (Num (1/10^8)) (Num (1/2)) (Num (24/25)) False) 1 2 call"
    by (simp add: is_zero_matrix_zeros step_skipped_def step_factor_def AdamUpdate_new_def
          pow_nat_Num dsub_Num power2_eq_square s1 s2 del: pow_nat.simps)
  have adamax: "\<forall>call \<in> set ?calls.
      zero_gradient_call (AdamUpdate_new (Num (1/10^8)) (Num (1/2)) (Num (24/25)) True) 1 2 call"
    by (simp add: is_zero_matrix_zeros step_skipped_def step_factor_def AdamUpdate_new_def
          pow_nat_Num dsub_Num dneq_Num power2_eq_square del: pow_nat.simps)
  from zero_gradients_keep_parameters [OF wc shape range adam]
       zero_gradients_keep_parameters [OF wc shape range adamax]
  show ?thesis by (intro conjI)
qed

end
